theory Spec2Isabelle
  imports Main
begin

section \<open>SlayerGame server: player records, training and achievements\<close>

text \<open>
  The server comes in two variants, one on PostgreSQL and one on SQLite, whose handlers
  are the same statement for statement. It keeps four tables and answers each request
  with a short read-modify-write sequence. The tables are the state; every handler takes
  the state, the time of the request (what \<^verbatim>\<open>CURRENT_TIMESTAMP\<close> yields) and the
  request, and returns the new state with the response.

  Conventions of the model:
  \<^item> Numbers. The numbers of a request body are JSON integers and the INTEGER columns
    hold integers; both are \<open>int\<close>. The PostgreSQL server keeps an INTEGER in 32 bits:
    the UPDATE of the train handler is refused with a data exception, and writes nothing,
    when one of its numeric parameters or one of the column values it would write is
    outside that range. The SQLite server does not refuse there: it adds in floating
    point. The model follows the PostgreSQL server at such values, and every statement
    below about an accepted train request is made for numbers inside the range
    (\<open>train_in_range\<close>), where the script and both stores compute the same exact
    integers.
  \<^item> Overlap. A handler of the PostgreSQL server waits for the store after each of its
    statements, so statements of another request can run between its SELECT and its
    UPDATE. \<open>train\<close> is the handler run with nothing in between;
    \<open>train_after_select\<close> is the handler from its guard on, given the row its SELECT
    has read, on the store as it is by then. \<open>handle\<close> and \<open>run\<close> take the requests
    one after another.
  \<^item> One handler call reads one time of request.
  \<^item> An exception that leaves a handler (a constraint violation or data exception of
    the store, a TypeError of the script) is the response \<open>Thrown\<close>: nothing in a
    handler catches it. The statements run before it stay applied, since no handler
    opens a transaction.
\<close>

subsection \<open>Rows and tables\<close>

type_synonym timestamp = nat

text \<open>The payload of the signed token, \<^verbatim>\<open>req.user\<close>.\<close>

record user =
  id_u :: int
  username :: string

text \<open>A row of table \<^verbatim>\<open>players\<close>.\<close>

record player =
  id_p :: int
  name :: string
  gender :: string
  level :: int
  exp_p :: int
  hp :: int
  max_hp :: int
  gold :: int
  gems :: int
  weapon :: string
  str :: int
  dex :: int
  vit :: int
  stat_points :: int
  last_save :: timestamp
  language :: string
  created_at :: timestamp
  theme_color :: string

text \<open>A row of table \<^verbatim>\<open>achievements\<close>.\<close>

record achievement =
  id_a :: string
  title_en :: string
  title_th :: string
  description_en :: string
  description_th :: string
  icon :: string
  requirement_type :: string
  requirement_value :: int

text \<open>A row of table \<^verbatim>\<open>player_achievements\<close>.\<close>

record player_achievement =
  player_id :: int
  achievement_id :: string
  unlocked_at :: timestamp

text \<open>
  The store. \<open>users\<close> holds the ids of the rows of table \<^verbatim>\<open>users\<close> (the
  other columns of that table belong to the login code); \<open>players\<close> is keyed by its
  primary key; \<open>achievements\<close> and \<open>player_achievements\<close> are the rows in the
  order a \<^verbatim>\<open>SELECT\<close> returns them.
\<close>

record db =
  users :: "int set"
  players :: "int \<rightharpoonup> player"
  achievements :: "achievement list"
  player_achievements :: "player_achievement list"

datatype exn = UniqueViolation | ForeignKeyViolation | DataException | TypeError

text \<open>The bodies of the POST requests.\<close>

record train_body =
  body_str :: int
  body_dex :: int
  body_vit :: int
  pointsSpent :: int

record settings_body =
  body_language :: "string option"
  body_theme_color :: "string option"

text \<open>What a handler sends back.\<close>

datatype response =
    ErrorJson nat string
  | SuccessJson
  | PlayerJson "player option"
  | MeJson user "player option"
  | AchievementsJson "achievement list" "string list"
  | NewlyUnlockedJson "achievement list"
  | Thrown exn

subsection \<open>Statements of the store\<close>

text \<open>\<^verbatim>\<open>UPDATE players SET ... WHERE id = $n\<close>: the row with that key, if there is one.\<close>

definition update_player :: "db \<Rightarrow> int \<Rightarrow> (player \<Rightarrow> player) \<Rightarrow> db" where
  "update_player d i f =
     (case players d i of
        None \<Rightarrow> d
      | Some row \<Rightarrow> d\<lparr>players := (players d)(i \<mapsto> f row)\<rparr>)"

text \<open>The range of an INTEGER of the PostgreSQL store.\<close>

definition int32 :: "int \<Rightarrow> bool" where
  "int32 x = (- 2147483648 \<le> x \<and> x \<le> 2147483647)"

text \<open>
  The UPDATE of the train handler,
  \<^verbatim>\<open>UPDATE players SET str = str + $1, dex = dex + $2, vit = vit + $3,
  stat_points = stat_points - $4, max_hp = $5, last_save = CURRENT_TIMESTAMP WHERE id = $6\<close>.
  The five numbers are bound as INTEGER parameters, whatever row the statement finds, and
  the four sums are INTEGER values: one of them out of range is a data exception, and no
  column is written. Each right-hand side reads the row as it is before the statement.
\<close>

definition update_train :: "db \<Rightarrow> timestamp \<Rightarrow> int \<Rightarrow> train_body \<Rightarrow> int \<Rightarrow> exn + db" where
  "update_train d now i b newMaxHp =
     (if \<not> (int32 (body_str b) \<and> int32 (body_dex b) \<and> int32 (body_vit b)
             \<and> int32 (pointsSpent b) \<and> int32 newMaxHp)
      then Inl DataException
      else
        case players d i of
          None \<Rightarrow> Inr d
        | Some row \<Rightarrow>
            if \<not> (int32 (str row + body_str b) \<and> int32 (dex row + body_dex b)
                   \<and> int32 (vit row + body_vit b)
                   \<and> int32 (stat_points row - pointsSpent b))
            then Inl DataException
            else Inr (d\<lparr>players := (players d)(i \<mapsto>
                   row\<lparr>str := str row + body_str b,
                       dex := dex row + body_dex b,
                       vit := vit row + body_vit b,
                       stat_points := stat_points row - pointsSpent b,
                       max_hp := newMaxHp,
                       last_save := now\<rparr>)\<rparr>))"

text \<open>\<^verbatim>\<open>SELECT achievement_id FROM player_achievements WHERE player_id = $1\<close>, mapped to the ids.\<close>

definition select_unlockedIds :: "db \<Rightarrow> int \<Rightarrow> string list" where
  "select_unlockedIds d i =
     map achievement_id (filter (\<lambda>u. player_id u = i) (player_achievements d))"

text \<open>
  \<^verbatim>\<open>INSERT INTO player_achievements (player_id, achievement_id) VALUES ($1, $2)\<close>,
  under the table's composite primary key and its two foreign keys.
\<close>

definition insert_player_achievement :: "db \<Rightarrow> timestamp \<Rightarrow> int \<Rightarrow> string \<Rightarrow> exn + db" where
  "insert_player_achievement d now pid aid =
     (if list_ex (\<lambda>u. player_id u = pid \<and> achievement_id u = aid) (player_achievements d)
      then Inl UniqueViolation
      else if players d pid = None \<or> \<not> list_ex (\<lambda>a. id_a a = aid) (achievements d)
      then Inl ForeignKeyViolation
      else Inr (d\<lparr>player_achievements := player_achievements d @
                  [\<lparr>player_id = pid, achievement_id = aid, unlocked_at = now\<rparr>]\<rparr>))"

subsection \<open>createPlayer\<close>

text \<open>
  The helper inserts one row with the fixed starting values; \<open>last_save\<close> and
  \<open>theme_color\<close> are not named by the statement and take the defaults of the table.
  The parameter \<open>gender\<close> defaults to \<^verbatim>\<open>'Male'\<close> when the caller passes none.
\<close>

definition createPlayer :: "db \<Rightarrow> timestamp \<Rightarrow> int \<Rightarrow> string \<Rightarrow> string option \<Rightarrow> exn + db" where
  "createPlayer d now userId nm gen =
     (if players d userId \<noteq> None then Inl UniqueViolation
      else if userId \<notin> users d then Inl ForeignKeyViolation
      else Inr (d\<lparr>players := (players d)(userId \<mapsto>
        \<lparr>id_p = userId, name = nm,
         gender = (case gen of None \<Rightarrow> ''Male'' | Some g \<Rightarrow> g),
         level = 1, exp_p = 0, hp = 100, max_hp = 100, gold = 500, gems = 50,
         weapon = ''Wooden Sword'', str = 1, dex = 1, vit = 1, stat_points = 5,
         last_save = now, language = ''EN'', created_at = now,
         theme_color = ''#ef4444''\<rparr>)\<rparr>))"

subsection \<open>The handlers\<close>

text \<open>GET /api/me\<close>

definition me :: "db \<Rightarrow> timestamp \<Rightarrow> user \<Rightarrow> db \<times> response" where
  "me d now u =
     (case players d (id_u u) of
        Some player \<Rightarrow> (d, MeJson u (Some player))
      | None \<Rightarrow>
          (case createPlayer d now (id_u u) (username u) None of
             Inl e \<Rightarrow> (d, Thrown e)
           | Inr d' \<Rightarrow> (d', MeJson u (players d' (id_u u)))))"

text \<open>
  POST /api/player/train, from the guard on: \<open>player\<close> is the row the handler's first
  SELECT has read, \<open>d\<close> the store when the UPDATE and the closing SELECT run. The
  script computes \<open>newMaxHp\<close> from the row it has read; for the numbers the UPDATE
  accepts, its arithmetic is exact.
\<close>

definition train_after_select ::
  "db \<Rightarrow> timestamp \<Rightarrow> user \<Rightarrow> train_body \<Rightarrow> player option \<Rightarrow> db \<times> response" where
  "train_after_select d now u b player =
     (case player of
        None \<Rightarrow> (d, ErrorJson 400 ''Insufficient stat points'')
      | Some pl \<Rightarrow>
          if stat_points pl < pointsSpent b
          then (d, ErrorJson 400 ''Insufficient stat points'')
          else
            let newMaxHp = 100 + ((vit pl + body_vit b) * 10)
            in case update_train d now (id_u u) b newMaxHp of
                 Inl e \<Rightarrow> (d, Thrown e)
               | Inr d' \<Rightarrow> (d', PlayerJson (players d' (id_u u))))"

text \<open>POST /api/player/train, with no statement of another request between its own.\<close>

definition train :: "db \<Rightarrow> timestamp \<Rightarrow> user \<Rightarrow> train_body \<Rightarrow> db \<times> response" where
  "train d now u b = train_after_select d now u b (players d (id_u u))"

text \<open>POST /api/player/save\<close>

definition save :: "db \<Rightarrow> timestamp \<Rightarrow> user \<Rightarrow> db \<times> response" where
  "save d now u =
     (let d' = update_player d (id_u u) (\<lambda>row. row\<lparr>last_save := now\<rparr>)
      in (d', PlayerJson (players d' (id_u u))))"

text \<open>
  POST /api/player/settings. A field of the body is used when it is truthy: present and
  not the empty string.
\<close>

definition settings :: "db \<Rightarrow> timestamp \<Rightarrow> user \<Rightarrow> settings_body \<Rightarrow> db \<times> response" where
  "settings d now u b =
     (let d1 = (case body_language b of
                  None \<Rightarrow> d
                | Some l \<Rightarrow>
                    if l = [] then d
                    else update_player d (id_u u) (\<lambda>row. row\<lparr>language := l\<rparr>));
          d2 = (case body_theme_color b of
                  None \<Rightarrow> d1
                | Some c \<Rightarrow>
                    if c = [] then d1
                    else update_player d1 (id_u u) (\<lambda>row. row\<lparr>theme_color := c\<rparr>))
      in (d2, PlayerJson (players d2 (id_u u))))"

text \<open>
  POST /api/player/update-name. \<open>trim\<close> removes the white space at both ends; of the
  characters the script's \<^verbatim>\<open>trim\<close> removes, the ASCII ones are modelled.
\<close>

definition is_space :: "char \<Rightarrow> bool" where
  "is_space c = (c \<in> set [CHR 0x09, CHR 0x0A, CHR 0x0B, CHR 0x0C, CHR 0x0D, CHR 0x20])"

definition trim :: "string \<Rightarrow> string" where
  "trim s = rev (dropWhile is_space (rev (dropWhile is_space s)))"

definition update_name :: "db \<Rightarrow> timestamp \<Rightarrow> user \<Rightarrow> string option \<Rightarrow> db \<times> response" where
  "update_name d now u nm =
     (case nm of
        None \<Rightarrow> (d, ErrorJson 400 ''Name must be at least 2 characters long'')
      | Some n \<Rightarrow>
          if n = [] \<or> length (trim n) < 2
          then (d, ErrorJson 400 ''Name must be at least 2 characters long'')
          else
            let d' = update_player d (id_u u) (\<lambda>row. row\<lparr>name := trim n\<rparr>)
            in (d', PlayerJson (players d' (id_u u))))"

text \<open>GET /api/achievements\<close>

definition get_achievements :: "db \<Rightarrow> timestamp \<Rightarrow> user \<Rightarrow> db \<times> response" where
  "get_achievements d now u =
     (d, AchievementsJson (achievements d) (select_unlockedIds d (id_u u)))"

text \<open>
  POST /api/player/check-achievements. One test of the loop body,
  \<^verbatim>\<open>ach.requirement_type === kind && player.field >= ach.requirement_value\<close>: the
  field is read only when the kind matches, and reading a field of a player that was not
  found throws.
\<close>

definition requirement_test ::
  "player option \<Rightarrow> achievement \<Rightarrow> string \<Rightarrow> (player \<Rightarrow> int) \<Rightarrow> exn + bool" where
  "requirement_test player ach kind field =
     (if requirement_type ach = kind
      then (case player of
              None \<Rightarrow> Inl TypeError
            | Some p \<Rightarrow> Inr (field p \<ge> requirement_value ach))
      else Inr False)"

text \<open>The flag \<^verbatim>\<open>isMet\<close> after the three tests, which run in this order.\<close>

definition isMet :: "player option \<Rightarrow> achievement \<Rightarrow> exn + bool" where
  "isMet player ach =
     (case requirement_test player ach ''level'' level of
        Inl e \<Rightarrow> Inl e
      | Inr t1 \<Rightarrow>
          (case requirement_test player ach ''str'' str of
             Inl e \<Rightarrow> Inl e
           | Inr t2 \<Rightarrow>
               (case requirement_test player ach ''gold'' gold of
                  Inl e \<Rightarrow> Inl e
                | Inr t3 \<Rightarrow>
                    Inr (let m0 = False;
                             m1 = (if t1 then True else m0);
                             m2 = (if t2 then True else m1);
                             m3 = (if t3 then True else m2)
                         in m3))))"

text \<open>
  The loop over the catalog. \<open>unlockedIds\<close> is read once, before the loop; the state
  and the list \<open>newlyUnlocked\<close> change as the loop runs.
\<close>

fun check_loop ::
  "timestamp \<Rightarrow> int \<Rightarrow> player option \<Rightarrow> string list \<Rightarrow> achievement list \<Rightarrow>
   db \<times> achievement list \<Rightarrow> db \<times> (exn + achievement list)" where
  "check_loop now uid player unlockedIds [] (d, newlyUnlocked) = (d, Inr newlyUnlocked)"
| "check_loop now uid player unlockedIds (ach # rest) (d, newlyUnlocked) =
     (if id_a ach \<notin> set unlockedIds
      then (case isMet player ach of
              Inl e \<Rightarrow> (d, Inl e)
            | Inr met \<Rightarrow>
                if met
                then (case insert_player_achievement d now uid (id_a ach) of
                        Inl e \<Rightarrow> (d, Inl e)
                      | Inr d' \<Rightarrow>
                          check_loop now uid player unlockedIds rest (d', newlyUnlocked @ [ach]))
                else check_loop now uid player unlockedIds rest (d, newlyUnlocked))
      else check_loop now uid player unlockedIds rest (d, newlyUnlocked))"

definition check_achievements :: "db \<Rightarrow> timestamp \<Rightarrow> user \<Rightarrow> db \<times> response" where
  "check_achievements d now u =
     (let player = players d (id_u u);
          achs = achievements d;
          unlockedIds = select_unlockedIds d (id_u u)
      in case check_loop now (id_u u) player unlockedIds achs (d, []) of
           (d', Inl e) \<Rightarrow> (d', Thrown e)
         | (d', Inr newlyUnlocked) \<Rightarrow> (d', NewlyUnlockedJson newlyUnlocked))"

subsection \<open>Sequences of requests\<close>

text \<open>
  The requests that read or write the tables of the game. \<open>CreatePlayer\<close> stands for
  the call of \<open>createPlayer\<close> that the registration and the OAuth callback make for a
  new account.
\<close>

datatype request =
    Me user
  | Train user train_body
  | Save user
  | Settings user settings_body
  | UpdateName user "string option"
  | GetAchievements user
  | CheckAchievements user
  | CreatePlayer int string "string option"

fun handle :: "db \<Rightarrow> timestamp \<Rightarrow> request \<Rightarrow> db \<times> response" where
  "handle d now (Me u) = me d now u"
| "handle d now (Train u b) = train d now u b"
| "handle d now (Save u) = save d now u"
| "handle d now (Settings u b) = settings d now u b"
| "handle d now (UpdateName u nm) = update_name d now u nm"
| "handle d now (GetAchievements u) = get_achievements d now u"
| "handle d now (CheckAchievements u) = check_achievements d now u"
| "handle d now (CreatePlayer userId nm gen) =
     (case createPlayer d now userId nm gen of
        Inl e \<Rightarrow> (d, Thrown e)
      | Inr d' \<Rightarrow> (d', SuccessJson))"

text \<open>The state after a sequence of requests, each with its time.\<close>

fun run :: "db \<Rightarrow> (timestamp \<times> request) list \<Rightarrow> db" where
  "run d [] = d"
| "run d ((now, r) # rs) = run (fst (handle d now r)) rs"

text \<open>A train request as the contract of the ledger describes it: no negative delta.\<close>

fun nonneg_deltas :: "request \<Rightarrow> bool" where
  "nonneg_deltas (Train u b) = (0 \<le> body_str b \<and> 0 \<le> body_dex b \<and> 0 \<le> body_vit b)"
| "nonneg_deltas _ = True"

subsection \<open>The evaluator as its contract words it\<close>

text \<open>
  The requirement of a catalog entry as the contract of the evaluator states it: a
  \<^verbatim>\<open>level\<close>, \<^verbatim>\<open>str\<close> or \<^verbatim>\<open>gold\<close> entry is satisfied when the field of
  that name has reached the threshold, and no other kind is satisfied.
\<close>

definition spec_satisfied :: "player \<Rightarrow> achievement \<Rightarrow> bool" where
  "spec_satisfied p a =
     (requirement_type a = ''level'' \<and> level p \<ge> requirement_value a
      \<or> requirement_type a = ''str'' \<and> str p \<ge> requirement_value a
      \<or> requirement_type a = ''gold'' \<and> gold p \<ge> requirement_value a)"

text \<open>The unlock records of one call, one per entry, in the order of the entries.\<close>

definition unlock_rows :: "timestamp \<Rightarrow> int \<Rightarrow> achievement list \<Rightarrow> player_achievement list" where
  "unlock_rows now uid achs =
     map (\<lambda>a. \<lparr>player_id = uid, achievement_id = id_a a, unlocked_at = now\<rparr>) achs"

subsection \<open>The range in which a train request is computed exactly\<close>


subsection \<open>Sample data\<close>

definition ex_user :: user where
  "ex_user = \<lparr>id_u = 1, username = ''hero''\<rparr>"

definition ex_player :: player where
  "ex_player =
     \<lparr>id_p = 1, name = ''hero'', gender = ''Male'', level = 5, exp_p = 40, hp = 100,
      max_hp = 110, gold = 999, gems = 50, weapon = ''Wooden Sword'', str = 3, dex = 9,
      vit = 1, stat_points = 4, last_save = 0, language = ''EN'', created_at = 0,
      theme_color = ''#ef4444''\<rparr>"

definition ex_achievement :: "string \<Rightarrow> string \<Rightarrow> int \<Rightarrow> achievement" where
  "ex_achievement i kind v =
     \<lparr>id_a = i, title_en = ''t'', title_th = ''t'', description_en = ''d'',
      description_th = ''d'', icon = ''Sword'', requirement_type = kind,
      requirement_value = v\<rparr>"

text \<open>The three seeded rules (ids, kinds and thresholds) and one of a kind the loop does not know.\<close>

definition ex_catalog :: "achievement list" where
  "ex_catalog =
     [ex_achievement ''lvl_5'' ''level'' 5, ex_achievement ''str_10'' ''str'' 10,
      ex_achievement ''gold_1000'' ''gold'' 1000, ex_achievement ''dex_5'' ''dex'' 5]"

definition ex_db :: db where
  "ex_db = \<lparr>users = {1}, players = [1 \<mapsto> ex_player], achievements = ex_catalog,
            player_achievements = []\<rparr>"

text \<open>The same store before the account has a player row.\<close>

definition ex_db_new :: db where
  "ex_db_new = \<lparr>users = {1}, players = Map.empty, achievements = ex_catalog,
                player_achievements = []\<rparr>"

definition ex_body :: train_body where
  "ex_body = \<lparr>body_str = 2, body_dex = 0, body_vit = 3, pointsSpent = 1\<rparr>"

definition ex_body_over :: train_body where
  "ex_body_over = \<lparr>body_str = 1, body_dex = 0, body_vit = 0, pointsSpent = 5\<rparr>"





definition ex_body_all :: train_body where
  "ex_body_all = \<lparr>body_str = 4, body_dex = 0, body_vit = 0, pointsSpent = 4\<rparr>"






section \<open>The stat allocation ledger\<close>




text \<open>
  C2. A train request that claims more points than the player has is answered with the
  insufficient-points error, and the store, hence the player's row with its
  \<open>stat_points\<close>, \<open>str\<close>, \<open>dex\<close>, \<open>vit\<close> and \<open>max_hp\<close>, is what it was.
\<close>

theorem train_insufficient_points_unchanged:
  assumes "players d (id_u u) = Some p" and "stat_points p < pointsSpent b"
  shows "train d now u b = (d, ErrorJson 400 ''Insufficient stat points'')
         \<and> players (fst (train d now u b)) (id_u u) = Some p"
  using assms by (simp add: train_def train_after_select_def)

theorem train_insufficient_points_unchanged_witness:
  "players ex_db (id_u ex_user) = Some ex_player
   \<and> stat_points ex_player < pointsSpent ex_body_over
   \<and> train ex_db 8 ex_user ex_body_over = (ex_db, ErrorJson 400 ''Insufficient stat points'')
   \<and> players (fst (train ex_db 8 ex_user ex_body_over)) (id_u ex_user) = Some ex_player"
proof -
  have h1: "players ex_db (id_u ex_user) = Some ex_player"
    by (simp add: ex_db_def ex_user_def)
  have h2: "stat_points ex_player < pointsSpent ex_body_over"
    by (simp add: ex_body_over_def ex_player_def)
  from train_insufficient_points_unchanged [OF h1 h2, of 8] h1 h2 show ?thesis by simp
qed




text \<open>
  C7, as the handler has it. The two failure modes of train share one guard and one
  response: a request for an account without a player row is answered exactly like one
  that claims more points than the player has, and neither changes the store.
\<close>

theorem train_failures_one_message:
  assumes "players d (id_u u) = None"
    and "players d' (id_u u') = Some p" and "stat_points p < pointsSpent b'"
  shows "train d now u b = (d, ErrorJson 400 ''Insufficient stat points'')
         \<and> train d' now' u' b' = (d', ErrorJson 400 ''Insufficient stat points'')
         \<and> snd (train d now u b) = snd (train d' now' u' b')"
  using assms by (simp add: train_def train_after_select_def)

theorem train_failures_one_message_witness:
  "players ex_db_new (id_u ex_user) = None
   \<and> players ex_db (id_u ex_user) = Some ex_player
   \<and> stat_points ex_player < pointsSpent ex_body_over
   \<and> train ex_db_new 8 ex_user ex_body = (ex_db_new, ErrorJson 400 ''Insufficient stat points'')
   \<and> train ex_db 9 ex_user ex_body_over = (ex_db, ErrorJson 400 ''Insufficient stat points'')
   \<and> snd (train ex_db_new 8 ex_user ex_body) = snd (train ex_db 9 ex_user ex_body_over)"
proof -
  have h1: "players ex_db_new (id_u ex_user) = None"
    by (simp add: ex_db_new_def)
  have h2: "players ex_db (id_u ex_user) = Some ex_player"
    by (simp add: ex_db_def ex_user_def)
  have h3: "stat_points ex_player < pointsSpent ex_body_over"
    by (simp add: ex_body_over_def ex_player_def)
  from train_failures_one_message [OF h1 h2 h3, of 8 ex_body 9] h1 h2 h3 show ?thesis
    by blast
qed

text \<open>
  The same request sent for an account without a player row and for a player with 4
  points who claims 5: the caller reads the same status and the same message.
\<close>

theorem train_failures_same_message_counterexample:
  "snd (train ex_db_new 8 ex_user ex_body_over) = snd (train ex_db 8 ex_user ex_body_over)
   \<and> players ex_db_new (id_u ex_user) = None
   \<and> snd (train ex_db_new 8 ex_user ex_body_over) = ErrorJson 400 ''Insufficient stat points''"
  by (simp add: train_def train_after_select_def ex_db_new_def ex_db_def ex_user_def
      ex_body_over_def ex_player_def)




text \<open>
  How a player comes to be overdrawn: two requests that each spend all 4 points overlap,
  both pass the guard on the row read before either writes, and both deductions apply.
\<close>

lemma overlapping_trains_overdraw:
  "players (fst (train_after_select
          (fst (train_after_select ex_db 8 ex_user ex_body_all (players ex_db (id_u ex_user))))
          9 ex_user ex_body_all (players ex_db (id_u ex_user)))) (id_u ex_user) =
     Some (ex_player\<lparr>str := 11, stat_points := - 4, max_hp := 110, last_save := 9\<rparr>)"
  by (simp add: train_after_select_def update_train_def int32_def Let_def
      ex_db_def ex_user_def ex_player_def ex_body_all_def)

section \<open>The player record: first access and save\<close>



text \<open>
  C9. Save rewrites the player's row with a new \<open>last_save\<close> and nothing else: every
  other column of the returned and stored row is the one read before the call.
\<close>

theorem save_touches_last_save_only:
  assumes "players d (id_u u) = Some p"
  shows "\<exists>p'. save d now u =
                (d\<lparr>players := (players d)(id_u u \<mapsto> p')\<rparr>, PlayerJson (Some p'))
           \<and> last_save p' = now
           \<and> id_p p' = id_p p \<and> name p' = name p \<and> gender p' = gender p
           \<and> level p' = level p \<and> exp_p p' = exp_p p \<and> hp p' = hp p
           \<and> max_hp p' = max_hp p \<and> gold p' = gold p \<and> gems p' = gems p
           \<and> weapon p' = weapon p \<and> str p' = str p \<and> dex p' = dex p \<and> vit p' = vit p
           \<and> stat_points p' = stat_points p \<and> language p' = language p
           \<and> created_at p' = created_at p \<and> theme_color p' = theme_color p"
  using assms by (simp add: save_def update_player_def Let_def)

theorem save_touches_last_save_only_witness:
  "players ex_db (id_u ex_user) = Some ex_player
   \<and> save ex_db 8 ex_user =
       (ex_db\<lparr>players := (players ex_db)(id_u ex_user \<mapsto> ex_player\<lparr>last_save := 8\<rparr>)\<rparr>,
        PlayerJson (Some (ex_player\<lparr>last_save := 8\<rparr>)))"
proof -
  have h: "players ex_db (id_u ex_user) = Some ex_player"
    by (simp add: ex_db_def ex_user_def)
  from save_touches_last_save_only [OF h, of 8] obtain p' where
    s: "save ex_db 8 ex_user =
          (ex_db\<lparr>players := (players ex_db)(id_u ex_user \<mapsto> p')\<rparr>, PlayerJson (Some p'))"
    and f: "last_save p' = 8" "id_p p' = id_p ex_player" "name p' = name ex_player"
      "gender p' = gender ex_player" "level p' = level ex_player" "exp_p p' = exp_p ex_player"
      "hp p' = hp ex_player" "max_hp p' = max_hp ex_player" "gold p' = gold ex_player"
      "gems p' = gems ex_player" "weapon p' = weapon ex_player" "str p' = str ex_player"
      "dex p' = dex ex_player" "vit p' = vit ex_player" "stat_points p' = stat_points ex_player"
      "language p' = language ex_player" "created_at p' = created_at ex_player"
      "theme_color p' = theme_color ex_player"
    by blast
  have "p' = ex_player\<lparr>last_save := 8\<rparr>"
    using f by (cases p') (simp add: ex_player_def)
  with s h show ?thesis by simp
qed

section \<open>The achievement evaluator\<close>

text \<open>With a player at hand the three tests throw nothing, and the flag is the contract's condition.\<close>

lemma isMet_Some: "isMet (Some p) a = Inr (spec_satisfied p a)"
  by (auto simp add: isMet_def requirement_test_def spec_satisfied_def Let_def)

lemma insert_fresh:
  assumes "players d uid = Some p"
    and "\<forall>r\<in>set (player_achievements d). \<not> (player_id r = uid \<and> achievement_id r = aid)"
    and "aid \<in> id_a ` set (achievements d)"
  shows "insert_player_achievement d now uid aid =
           Inr (d\<lparr>player_achievements := player_achievements d @
                  [\<lparr>player_id = uid, achievement_id = aid, unlocked_at = now\<rparr>]\<rparr>)"
  using assms by (auto simp add: insert_player_achievement_def list_ex_iff)

lemma check_loop_result:
  assumes "players d uid = Some p"
    and "distinct (map id_a achs)"
    and "id_a ` set achs \<subseteq> id_a ` set (achievements d)"
    and "\<forall>a\<in>set achs. id_a a \<notin> set unlockedIds \<longrightarrow>
           (\<forall>r\<in>set (player_achievements d). \<not> (player_id r = uid \<and> achievement_id r = id_a a))"
  shows "check_loop now uid (Some p) unlockedIds achs (d, acc) =
           (d\<lparr>player_achievements := player_achievements d @
                unlock_rows now uid (filter (\<lambda>a. id_a a \<notin> set unlockedIds \<and> spec_satisfied p a) achs)\<rparr>,
            Inr (acc @ filter (\<lambda>a. id_a a \<notin> set unlockedIds \<and> spec_satisfied p a) achs))"
  using assms
proof (induction achs arbitrary: d acc)
  case Nil
  then show ?case by (simp add: unlock_rows_def)
next
  case (Cons a achs)
  show ?case
  proof (cases "id_a a \<notin> set unlockedIds \<and> spec_satisfied p a")
    case False
    have "check_loop now uid (Some p) unlockedIds (a # achs) (d, acc) =
          check_loop now uid (Some p) unlockedIds achs (d, acc)"
      using False by (auto simp add: isMet_Some)
    also have "\<dots> = (d\<lparr>player_achievements := player_achievements d @
                unlock_rows now uid (filter (\<lambda>a. id_a a \<notin> set unlockedIds \<and> spec_satisfied p a) achs)\<rparr>,
            Inr (acc @ filter (\<lambda>a. id_a a \<notin> set unlockedIds \<and> spec_satisfied p a) achs))"
      using Cons.prems by (intro Cons.IH) auto
    finally show ?thesis using False by auto
  next
    case True
    let ?row = "\<lparr>player_id = uid, achievement_id = id_a a, unlocked_at = now\<rparr>"
    let ?d' = "d\<lparr>player_achievements := player_achievements d @ [?row]\<rparr>"
    have ins: "insert_player_achievement d now uid (id_a a) = Inr ?d'"
      using Cons.prems True by (intro insert_fresh) auto
    have "check_loop now uid (Some p) unlockedIds (a # achs) (d, acc) =
          check_loop now uid (Some p) unlockedIds achs (?d', acc @ [a])"
      using True ins by (simp add: isMet_Some)
    also have "\<dots> = (?d'\<lparr>player_achievements := player_achievements ?d' @
                unlock_rows now uid (filter (\<lambda>a. id_a a \<notin> set unlockedIds \<and> spec_satisfied p a) achs)\<rparr>,
            Inr ((acc @ [a]) @ filter (\<lambda>a. id_a a \<notin> set unlockedIds \<and> spec_satisfied p a) achs))"
      using Cons.prems by (intro Cons.IH) (auto simp add: image_iff)
    finally show ?thesis using True by (simp add: unlock_rows_def)
  qed
qed

lemma select_unlockedIds_fresh:
  "aid \<notin> set (select_unlockedIds d uid) \<Longrightarrow>
     \<forall>r\<in>set (player_achievements d). \<not> (player_id r = uid \<and> achievement_id r = aid)"
  by (auto simp add: select_unlockedIds_def)

lemma check_achievements_result:
  assumes "players d (id_u u) = Some p" and "distinct (map id_a (achievements d))"
  shows "check_achievements d now u =
           (d\<lparr>player_achievements := player_achievements d @
                unlock_rows now (id_u u)
                  (filter (\<lambda>a. id_a a \<notin> set (select_unlockedIds d (id_u u)) \<and> spec_satisfied p a)
                     (achievements d))\<rparr>,
            NewlyUnlockedJson
              (filter (\<lambda>a. id_a a \<notin> set (select_unlockedIds d (id_u u)) \<and> spec_satisfied p a)
                 (achievements d)))"
proof -
  have "check_loop now (id_u u) (Some p) (select_unlockedIds d (id_u u)) (achievements d) (d, []) =
           (d\<lparr>player_achievements := player_achievements d @
                unlock_rows now (id_u u)
                  (filter (\<lambda>a. id_a a \<notin> set (select_unlockedIds d (id_u u)) \<and> spec_satisfied p a)
                     (achievements d))\<rparr>,
            Inr ([] @ filter (\<lambda>a. id_a a \<notin> set (select_unlockedIds d (id_u u)) \<and> spec_satisfied p a)
                 (achievements d)))"
    using assms by (intro check_loop_result) (auto dest: select_unlockedIds_fresh)
  then show ?thesis using assms by (simp add: check_achievements_def Let_def)
qed

lemma select_unlockedIds_append:
  "select_unlockedIds (d\<lparr>player_achievements := player_achievements d @ unlock_rows now uid achs\<rparr>) uid
     = select_unlockedIds d uid @ map id_a achs"
  by (simp add: select_unlockedIds_def unlock_rows_def comp_def)




text \<open>
  C5. Running the evaluation again on the store the first run left, whatever the time,
  answers with the empty list and leaves the store, hence its unlock records, as it is.
\<close>

theorem check_achievements_idempotent:
  assumes "players d (id_u u) = Some p" and "distinct (map id_a (achievements d))"
  shows "check_achievements (fst (check_achievements d now u)) now' u =
           (fst (check_achievements d now u), NewlyUnlockedJson [])"
proof -
  let ?new = "filter (\<lambda>a. id_a a \<notin> set (select_unlockedIds d (id_u u)) \<and> spec_satisfied p a)
                (achievements d)"
  let ?d1 = "d\<lparr>player_achievements := player_achievements d @ unlock_rows now (id_u u) ?new\<rparr>"
  have first: "fst (check_achievements d now u) = ?d1"
    using check_achievements_result [OF assms, of now] by simp
  have p1: "players ?d1 (id_u u) = Some p" using assms by simp
  have c1: "distinct (map id_a (achievements ?d1))" using assms by simp
  have none: "filter (\<lambda>a. id_a a \<notin> set (select_unlockedIds ?d1 (id_u u)) \<and> spec_satisfied p a)
                (achievements ?d1) = []"
    by (auto simp add: select_unlockedIds_append filter_empty_conv)
  have "check_achievements ?d1 now' u = (?d1, NewlyUnlockedJson [])"
    using check_achievements_result [OF p1 c1, of now'] unfolding none
    by (simp add: unlock_rows_def)
  with first show ?thesis by simp
qed

theorem check_achievements_idempotent_witness:
  "players ex_db (id_u ex_user) = Some ex_player \<and> distinct (map id_a (achievements ex_db))
   \<and> snd (check_achievements ex_db 8 ex_user) =
       NewlyUnlockedJson [ex_achievement ''lvl_5'' ''level'' 5]
   \<and> check_achievements (fst (check_achievements ex_db 8 ex_user)) 9 ex_user =
       (fst (check_achievements ex_db 8 ex_user), NewlyUnlockedJson [])"
proof -
  have h1: "players ex_db (id_u ex_user) = Some ex_player"
    by (simp add: ex_db_def ex_user_def)
  have h2: "distinct (map id_a (achievements ex_db))"
    by (simp add: ex_db_def ex_catalog_def ex_achievement_def)
  have first: "snd (check_achievements ex_db 8 ex_user) =
       NewlyUnlockedJson [ex_achievement ''lvl_5'' ''level'' 5]"
    using check_achievements_result [OF h1 h2, of 8]
    by (simp add: ex_db_def ex_catalog_def ex_achievement_def ex_player_def ex_user_def
        select_unlockedIds_def spec_satisfied_def)
  from check_achievements_idempotent [OF h1 h2, of 8 9] h1 h2 first show ?thesis
    by blast
qed

section \<open>Properties over sequences of requests\<close>

text \<open>The players table after each statement that writes it, and after the evaluation, which does not.\<close>

lemma players_update_player:
  "players (update_player d j f) i =
     (if i = j then map_option f (players d j) else players d i)"
  by (simp add: update_player_def split: option.splits)

lemma players_insert_player_achievement:
  "insert_player_achievement d now uid aid = Inr d' \<Longrightarrow> players d' = players d"
  by (auto simp add: insert_player_achievement_def split: if_splits)

lemma players_check_loop:
  "players (fst (check_loop now uid pl unl achs (d, acc))) = players d"
proof (induction achs arbitrary: d acc)
  case Nil
  then show ?case by simp
next
  case (Cons a achs)
  then show ?case
    by (auto simp add: players_insert_player_achievement split: sum.splits)
qed

lemma players_check_achievements:
  "players (fst (check_achievements d now u)) = players d"
proof -
  obtain d' r where e: "check_loop now (id_u u) (players d (id_u u))
      (select_unlockedIds d (id_u u)) (achievements d) (d, []) = (d', r)"
    by (cases "check_loop now (id_u u) (players d (id_u u))
      (select_unlockedIds d (id_u u)) (achievements d) (d, [])")
  have "players d' = players d"
    using players_check_loop [of now "id_u u" "players d (id_u u)"
        "select_unlockedIds d (id_u u)" "achievements d" d "[]"] e by simp
  then show ?thesis using e
    by (simp add: check_achievements_def Let_def split: sum.splits)
qed

lemma handle_attributes_mono:
  assumes "nonneg_deltas r" and "players d i = Some p"
  shows "\<exists>p'. players (fst (handle d now r)) i = Some p'
              \<and> str p \<le> str p' \<and> dex p \<le> dex p' \<and> vit p \<le> vit p'"
proof (cases r)
  case (Me u)
  then show ?thesis using assms
    by (auto simp add: me_def createPlayer_def split: option.splits)
next
  case (Train u b)
  then show ?thesis using assms
    by (auto simp add: train_def train_after_select_def update_train_def Let_def
        split: option.splits if_splits)
next
  case (Save u)
  then show ?thesis using assms
    by (auto simp add: save_def Let_def players_update_player)
next
  case (Settings u b)
  then show ?thesis using assms
    by (auto simp add: settings_def Let_def players_update_player split: option.splits)
next
  case (UpdateName u nm)
  then show ?thesis using assms
    by (auto simp add: update_name_def Let_def players_update_player split: option.splits)
next
  case (GetAchievements u)
  then show ?thesis using assms by (simp add: get_achievements_def)
next
  case (CheckAchievements u)
  then show ?thesis using assms by (simp add: players_check_achievements)
next
  case (CreatePlayer userId nm gen)
  then show ?thesis using assms
    by (auto simp add: createPlayer_def split: if_splits)
qed

text \<open>
  C6. Over any sequence of requests whose train requests carry no negative delta, a
  player that exists stays, and none of \<open>str\<close>, \<open>dex\<close>, \<open>vit\<close> is ever
  lower after the sequence than before it. The start is any store and any of its
  players, so the statement covers every stretch of a record's lifetime.
\<close>

theorem attributes_never_decrease:
  assumes "list_all (\<lambda>(now, r). nonneg_deltas r) rs" and "players d i = Some p"
  shows "\<exists>p'. players (run d rs) i = Some p'
              \<and> str p \<le> str p' \<and> dex p \<le> dex p' \<and> vit p \<le> vit p'"
  using assms
proof (induction rs arbitrary: d p)
  case Nil
  then show ?case by simp
next
  case (Cons x rs)
  obtain now r where x: "x = (now, r)" by (cases x)
  from Cons.prems x have nn: "nonneg_deltas r" and rest: "list_all (\<lambda>(now, r). nonneg_deltas r) rs"
    by simp_all
  from handle_attributes_mono [OF nn Cons.prems(2), of now] obtain q where
    q: "players (fst (handle d now r)) i = Some q"
    and le: "str p \<le> str q" "dex p \<le> dex q" "vit p \<le> vit q"
    by blast
  from Cons.IH [OF rest q] obtain p' where
    "players (run (fst (handle d now r)) rs) i = Some p'"
    "str q \<le> str p'" "dex q \<le> dex p'" "vit q \<le> vit p'"
    by blast
  with le x show ?case by auto
qed

theorem attributes_never_decrease_witness:
  "list_all (\<lambda>(now, r). nonneg_deltas r) [(8, Train ex_user ex_body), (9, Save ex_user)]
   \<and> players ex_db 1 = Some ex_player
   \<and> (\<exists>p'. players (run ex_db [(8, Train ex_user ex_body), (9, Save ex_user)]) 1 = Some p'
          \<and> str ex_player \<le> str p' \<and> dex ex_player \<le> dex p' \<and> vit ex_player \<le> vit p')"
proof -
  have h1: "list_all (\<lambda>(now, r). nonneg_deltas r) [(8, Train ex_user ex_body), (9, Save ex_user)]"
    by (simp add: ex_body_def)
  have h2: "players ex_db 1 = Some ex_player"
    by (simp add: ex_db_def)
  from attributes_never_decrease [OF h1 h2] h1 h2 show ?thesis by blast
qed

text \<open>
  Handled one after another, the requests never take the unspent points of a player below
  zero: a player is overdrawn only where requests overlap.
\<close>

lemma handle_stat_points_nonneg:
  assumes "\<forall>i p. players d i = Some p \<longrightarrow> 0 \<le> stat_points p"
  shows "\<forall>i p. players (fst (handle d now r)) i = Some p \<longrightarrow> 0 \<le> stat_points p"
proof (cases r)
  case (Me u)
  then show ?thesis using assms
    by (auto simp add: me_def createPlayer_def split: option.splits if_splits)
next
  case (Train u b)
  then show ?thesis using assms
    by (auto simp add: train_def train_after_select_def update_train_def Let_def
        split: option.splits if_splits)
next
  case (Save u)
  then show ?thesis using assms
    by (auto simp add: save_def Let_def players_update_player split: if_splits)
next
  case (Settings u b)
  then show ?thesis using assms
    by (auto simp add: settings_def Let_def players_update_player
        split: option.splits if_splits)
next
  case (UpdateName u nm)
  then show ?thesis using assms
    by (auto simp add: update_name_def Let_def players_update_player
        split: option.splits if_splits)
next
  case (GetAchievements u)
  then show ?thesis using assms by (simp add: get_achievements_def)
next
  case (CheckAchievements u)
  then show ?thesis using assms by (simp add: players_check_achievements)
next
  case (CreatePlayer userId nm gen)
  then show ?thesis using assms
    by (auto simp add: createPlayer_def split: if_splits)
qed

lemma run_stat_points_nonneg:
  assumes "\<forall>i p. players d i = Some p \<longrightarrow> 0 \<le> stat_points p"
  shows "\<forall>i p. players (run d rs) i = Some p \<longrightarrow> 0 \<le> stat_points p"
  using assms
proof (induction rs arbitrary: d)
  case Nil
  then show ?case by simp
next
  case (Cons x rs)
  obtain now r where x: "x = (now, r)" by (cases x)
  have "\<forall>i p. players (fst (handle d now r)) i = Some p \<longrightarrow> 0 \<le> stat_points p"
    using Cons.prems by (rule handle_stat_points_nonneg)
  from Cons.IH [OF this] x show ?case by simp
qed

end
